theory Spec2Isabelle
  imports Complex_Main
begin

section \<open>Data model of \<open>grout\<close>\<close>

text \<open>
  The exceptions the module can raise: \<open>ValueError\<close> (construction without a coordinate
  reference), \<open>IndexError\<close> (tile lookup out of range) and \<open>ZeroDivisionError\<close>
  (Python's \<open>/\<close> and \<open>divmod\<close> with a zero divisor).
\<close>

datatype error = ValueError | IndexError | ZeroDivisionError

text \<open>
  Python's unbounded \<open>int\<close> is \<open>int\<close>. Python's \<open>float\<close> is idealised as \<open>real\<close>:
  coordinates are computed in exact arithmetic, rounding is not modelled.
\<close>

record TileSpec =
  col :: int
  row :: int
  offset_x :: int
  offset_y :: int
  ncol :: int
  nrow :: int
  xmin :: real
  xmax :: real
  ymin :: real
  ymax :: real

text \<open>The attributes that \<open>Grout.__init__\<close> sets on \<open>self\<close>.\<close>

record Grout =
  ncol :: int
  nrow :: int
  block_width :: int
  block_height :: int
  xres :: real
  yres :: real
  xmin :: real
  ymax :: real
  tile_cols :: int
  tile_rows :: int

text \<open>The argument of \<open>Grout.__getitem__\<close>: a \<open>(col, row)\<close> tuple or a linear index.\<close>

datatype idx = Tup int int | Lin int

section \<open>Python primitives\<close>

definition bind_err :: "error + 'a \<Rightarrow> ('a \<Rightarrow> error + 'b) \<Rightarrow> error + 'b" where
  "bind_err m f = (case m of Inl e \<Rightarrow> Inl e | Inr x \<Rightarrow> f x)"

text \<open>\<open>a / b\<close> with an integer divisor: raises on \<open>b == 0\<close>.\<close>

definition true_div :: "real \<Rightarrow> int \<Rightarrow> error + real" where
  "true_div a b = (if b = 0 then Inl ZeroDivisionError else Inr (a / real_of_int b))"

text \<open>
  \<open>math.ceil(a / b)\<close> on two integers, with the quotient taken exactly. (Python rounds
  the quotient to a float first; for operands below \<open>2 ^ 53\<close> the ceiling is the same.)
\<close>

definition ceil_div :: "int \<Rightarrow> int \<Rightarrow> error + int" where
  "ceil_div a b = bind_err (true_div (real_of_int a) b) (\<lambda>q. Inr \<lceil>q\<rceil>)"

text \<open>\<open>divmod(a, b)\<close> on integers: floor division, the remainder has the divisor's sign.\<close>

definition py_divmod :: "int \<Rightarrow> int \<Rightarrow> error + (int \<times> int)" where
  "py_divmod a b = (if b = 0 then Inl ZeroDivisionError else Inr (a div b, a mod b))"


section \<open>The class \<open>Grout\<close>\<close>

subsection \<open>\<open>__init__\<close>\<close>

fun Grout_init ::
  "int \<times> int \<Rightarrow> int \<times> int \<Rightarrow> (real \<times> real \<times> real \<times> real) option
     \<Rightarrow> (real \<times> real \<times> real \<times> real \<times> real \<times> real) option \<Rightarrow> error + Grout" where
  "Grout_init (nc, nr) (bw, bh) extent transform =
        bind_err
          (case extent of
             Some (e_xmin, e_xmax, e_ymin, e_ymax) \<Rightarrow>
               bind_err (true_div (e_xmax - e_xmin) nc) (\<lambda>xr.
               bind_err (true_div (e_ymax - e_ymin) nr) (\<lambda>yr.
                 Inr (xr, yr, e_xmin, e_ymax)))
           | None \<Rightarrow>
              (case transform of
                 Some (t_xmin, t_xres, t2, t_ymax, t4, t_yres) \<Rightarrow>
                   Inr (t_xres, - t_yres, t_xmin, t_ymax)
               | None \<Rightarrow> Inl ValueError))
          (\<lambda>(xr, yr, x0, y0).
             bind_err (ceil_div nc bw) (\<lambda>tcs.
             bind_err (ceil_div nr bh) (\<lambda>trs.
               Inr \<lparr>Grout.ncol = nc, Grout.nrow = nr,
                    block_width = bw, block_height = bh,
                    xres = xr, yres = yr, Grout.xmin = x0, Grout.ymax = y0,
                    tile_cols = tcs, tile_rows = trs\<rparr>)))"

subsection \<open>\<open>__len__\<close>\<close>



subsection \<open>\<open>__iter__\<close>\<close>


subsection \<open>\<open>__getitem__\<close>\<close>

definition getitem :: "Grout \<Rightarrow> idx \<Rightarrow> error + TileSpec" where
  "getitem g i =
     bind_err
       (case i of
          Tup tc tr \<Rightarrow> Inr (tc, tr)
        | Lin n \<Rightarrow> bind_err (py_divmod n (tile_cols g)) (\<lambda>(tr, tc). Inr (tc, tr)))
       (\<lambda>(tc, tr).
          if \<not> (0 \<le> tc \<and> tc < tile_cols g \<and> 0 \<le> tr \<and> tr < tile_rows g)
          then Inl IndexError
          else
            (let ox = tc * block_width g;
                 oy = tr * block_height g;
                 nc = min (block_width g) (Grout.ncol g - ox);
                 nr = min (block_height g) (Grout.nrow g - oy);
                 tile_xmin = Grout.xmin g + real_of_int ox * xres g;
                 tile_xmax = tile_xmin + real_of_int nc * xres g;
                 tile_ymax = Grout.ymax g - real_of_int oy * yres g;
                 tile_ymin = tile_ymax - real_of_int nr * yres g
             in Inr \<lparr>col = tc, row = tr, offset_x = ox, offset_y = oy,
                      TileSpec.ncol = nc, TileSpec.nrow = nr,
                      TileSpec.xmin = tile_xmin, xmax = tile_xmax,
                      ymin = tile_ymin, TileSpec.ymax = tile_ymax\<rparr>))"

subsection \<open>\<open>index_partition\<close>\<close>


section \<open>Auxiliary definitions\<close>


section \<open>Auxiliary facts\<close>

declare Grout_init.simps [simp del]

lemma bind_err_Inr [simp]: "bind_err (Inr x) f = f x"
  by (simp add: bind_err_def)

lemma bind_err_Inl [simp]: "bind_err (Inl e) f = Inl e"
  by (simp add: bind_err_def)

lemma ceil_div_nonzero: "b \<noteq> 0 \<Longrightarrow> ceil_div a b = Inr \<lceil>real_of_int a / real_of_int b\<rceil>"
  by (simp add: ceil_div_def true_div_def)


lemma ceil_div_neq_ValueError: "ceil_div a b \<noteq> Inl ValueError"
  by (simp add: ceil_div_def true_div_def)

lemma init_ValueError_iff:
  "Grout_init (gw, gh) (tw, th) extent transform = Inl ValueError \<longleftrightarrow> extent = None \<and> transform = None"
  by (auto simp: Grout_init.simps true_div_def ceil_div_def bind_err_def
      split: option.splits sum.splits prod.splits)

lemma init_extent:
  assumes "gw \<noteq> 0" "gh \<noteq> 0" "tw \<noteq> 0" "th \<noteq> 0"
  shows "Grout_init (gw, gh) (tw, th) (Some (x0, x1, y0, y1)) transform =
     Inr \<lparr>Grout.ncol = gw, Grout.nrow = gh, block_width = tw, block_height = th,
          xres = (x1 - x0) / real_of_int gw, yres = (y1 - y0) / real_of_int gh,
          Grout.xmin = x0, Grout.ymax = y1,
          tile_cols = \<lceil>real_of_int gw / real_of_int tw\<rceil>,
          tile_rows = \<lceil>real_of_int gh / real_of_int th\<rceil>\<rparr>"
  using assms by (simp add: Grout_init.simps true_div_def ceil_div_nonzero)

lemma init_transform:
  assumes "tw \<noteq> 0" "th \<noteq> 0"
  shows "Grout_init (gw, gh) (tw, th) None (Some (ox, xr, a, oy, b, t5)) =
     Inr \<lparr>Grout.ncol = gw, Grout.nrow = gh, block_width = tw, block_height = th,
          xres = xr, yres = - t5,
          Grout.xmin = ox, Grout.ymax = oy,
          tile_cols = \<lceil>real_of_int gw / real_of_int tw\<rceil>,
          tile_rows = \<lceil>real_of_int gh / real_of_int th\<rceil>\<rparr>"
  using assms by (simp add: Grout_init.simps ceil_div_nonzero)





lemma ceiling_div_pos:
  fixes a b :: int
  assumes "0 < a" "0 < b"
  shows "0 < \<lceil>real_of_int a / real_of_int b\<rceil>"
  using assms by simp


lemma py_divmod_nonzero: "b \<noteq> 0 \<Longrightarrow> py_divmod a b = Inr (a div b, a mod b)"
  by (simp add: py_divmod_def)

lemma getitem_Tup:
  "getitem g (Tup tc tr) =
     (if 0 \<le> tc \<and> tc < tile_cols g \<and> 0 \<le> tr \<and> tr < tile_rows g
      then Inr \<lparr>col = tc, row = tr,
                offset_x = tc * block_width g, offset_y = tr * block_height g,
                TileSpec.ncol = min (block_width g) (Grout.ncol g - tc * block_width g),
                TileSpec.nrow = min (block_height g) (Grout.nrow g - tr * block_height g),
                TileSpec.xmin = Grout.xmin g + real_of_int (tc * block_width g) * xres g,
                xmax = Grout.xmin g + real_of_int (tc * block_width g) * xres g
                  + real_of_int (min (block_width g) (Grout.ncol g - tc * block_width g)) * xres g,
                ymin = Grout.ymax g - real_of_int (tr * block_height g) * yres g
                  - real_of_int (min (block_height g) (Grout.nrow g - tr * block_height g)) * yres g,
                TileSpec.ymax = Grout.ymax g - real_of_int (tr * block_height g) * yres g\<rparr>
      else Inl IndexError)"
  by (simp add: getitem_def Let_def)

lemma getitem_Lin:
  "tile_cols g \<noteq> 0 \<Longrightarrow>
     getitem g (Lin i) = getitem g (Tup (i mod tile_cols g) (i div tile_cols g))"
  by (simp add: getitem_def py_divmod_nonzero)

lemma getitem_Lin_zero:
  "tile_cols g = 0 \<Longrightarrow> getitem g (Lin i) = Inl ZeroDivisionError"
  by (simp add: getitem_def py_divmod_def)

lemma div_less_iff_int:
  fixes i c r :: int
  assumes "0 < c"
  shows "i div c < r \<longleftrightarrow> i < c * r"
proof -
  have "i div c = \<lfloor>real_of_int i / real_of_int c\<rfloor>"
    by (simp only: floor_divide_of_int_eq)
  then have "i div c < r \<longleftrightarrow> real_of_int i / real_of_int c < real_of_int r"
    by (simp add: floor_less_iff)
  also have "\<dots> \<longleftrightarrow> real_of_int i < real_of_int r * real_of_int c"
    using assms by (simp add: pos_divide_less_eq)
  also have "\<dots> \<longleftrightarrow> i < c * r"
    by (simp only: of_int_mult [symmetric] of_int_less_iff mult.commute)
  finally show ?thesis .
qed

lemma linear_in_range:
  fixes i c r :: int
  assumes "0 < c"
  shows "0 \<le> i mod c \<and> i mod c < c \<and> 0 \<le> i div c \<and> i div c < r \<longleftrightarrow> 0 \<le> i \<and> i < c * r"
proof -
  have m: "0 \<le> i mod c" "i mod c < c" using assms by simp_all
  have d0: "0 \<le> i div c \<longleftrightarrow> 0 \<le> i" using assms by (simp add: pos_imp_zdiv_nonneg_iff)
  show ?thesis using m d0 div_less_iff_int [OF assms] by simp
qed






































section \<open>Construction\<close>



text \<open>
  Claim C8. \<open>__init__\<close> raises \<open>ValueError\<close> exactly when neither an extent nor a transform
  is supplied. With an extent \<open>(xmin, xmax, ymin, ymax)\<close> the resolutions are
  \<open>(xmax - xmin) / grid_width\<close> and \<open>(ymax - ymin) / grid_height\<close> and the origin is
  \<open>(xmin, ymax)\<close>. With a transform alone the origin and the x resolution are taken from it
  and the y resolution is the negated last entry, which is positive for the conventional
  negative entry.
\<close>

theorem init_reference:
  "(Grout_init (gw, gh) (tw, th) extent transform = Inl ValueError
      \<longleftrightarrow> extent = None \<and> transform = None)
   \<and> (gw \<noteq> 0 \<and> gh \<noteq> 0 \<and> tw \<noteq> 0 \<and> th \<noteq> 0 \<longrightarrow>
        (\<exists>g. Grout_init (gw, gh) (tw, th) (Some (x0, x1, y0, y1)) transform = Inr g
           \<and> xres g = (x1 - x0) / real_of_int gw
           \<and> yres g = (y1 - y0) / real_of_int gh
           \<and> Grout.xmin g = x0 \<and> Grout.ymax g = y1))
   \<and> (tw \<noteq> 0 \<and> th \<noteq> 0 \<longrightarrow>
        (\<exists>g. Grout_init (gw, gh) (tw, th) None (Some (ox, xr, a, oy, b, t5)) = Inr g
           \<and> Grout.xmin g = ox \<and> Grout.ymax g = oy \<and> xres g = xr \<and> yres g = - t5
           \<and> (t5 < 0 \<longrightarrow> yres g = \<bar>t5\<bar> \<and> 0 < yres g)))"
proof (intro conjI impI)
  show "Grout_init (gw, gh) (tw, th) extent transform = Inl ValueError
      \<longleftrightarrow> extent = None \<and> transform = None"
    by (rule init_ValueError_iff)
next
  assume "gw \<noteq> 0 \<and> gh \<noteq> 0 \<and> tw \<noteq> 0 \<and> th \<noteq> 0"
  then show "\<exists>g. Grout_init (gw, gh) (tw, th) (Some (x0, x1, y0, y1)) transform = Inr g
           \<and> xres g = (x1 - x0) / real_of_int gw
           \<and> yres g = (y1 - y0) / real_of_int gh
           \<and> Grout.xmin g = x0 \<and> Grout.ymax g = y1"
    by (simp add: init_extent)
next
  assume "tw \<noteq> 0 \<and> th \<noteq> 0"
  then show "\<exists>g. Grout_init (gw, gh) (tw, th) None (Some (ox, xr, a, oy, b, t5)) = Inr g
           \<and> Grout.xmin g = ox \<and> Grout.ymax g = oy \<and> xres g = xr \<and> yres g = - t5
           \<and> (t5 < 0 \<longrightarrow> yres g = \<bar>t5\<bar> \<and> 0 < yres g)"
    by (simp add: init_transform)
qed

text \<open>The transform of \<open>test_grout_transform\<close> and the extent of \<open>test_grout_basic\<close>.\<close>

theorem init_reference_witness:
  "Grout_init (1000, 500) (100, 100) None None = Inl ValueError
   \<and> (\<exists>g. Grout_init (1000, 500) (100, 100) (Some (0, 100, 0, 50)) None = Inr g
           \<and> xres g = 1 / 10 \<and> yres g = 1 / 10 \<and> Grout.xmin g = 0 \<and> Grout.ymax g = 50)
   \<and> (\<exists>g. Grout_init (1000, 500) (100, 100) None (Some (0, 1 / 10, 0, 50, 0, - (1 / 10))) = Inr g
           \<and> Grout.xmin g = 0 \<and> Grout.ymax g = 50 \<and> xres g = 1 / 10 \<and> yres g = 1 / 10
           \<and> 0 < yres g)"
  using init_reference [of 1000 500 100 100 None None 0 100 0 50 0 "1 / 10" 0 50 0 "- (1 / 10)"]
  by simp

text \<open>
  Claim C9. When both an extent and a transform are supplied, construction succeeds (for
  non-zero dimensions) and the result is the one constructed from the extent alone: the
  transform is never read.
\<close>

theorem extent_precedence:
  "Grout_init (gw, gh) (tw, th) (Some (x0, x1, y0, y1)) (Some t)
     = Grout_init (gw, gh) (tw, th) (Some (x0, x1, y0, y1)) None
   \<and> (gw \<noteq> 0 \<and> gh \<noteq> 0 \<and> tw \<noteq> 0 \<and> th \<noteq> 0 \<longrightarrow>
        (\<exists>g. Grout_init (gw, gh) (tw, th) (Some (x0, x1, y0, y1)) (Some t) = Inr g
           \<and> xres g = (x1 - x0) / real_of_int gw
           \<and> yres g = (y1 - y0) / real_of_int gh
           \<and> Grout.xmin g = x0 \<and> Grout.ymax g = y1))"
proof (intro conjI impI)
  show "Grout_init (gw, gh) (tw, th) (Some (x0, x1, y0, y1)) (Some t)
     = Grout_init (gw, gh) (tw, th) (Some (x0, x1, y0, y1)) None"
    by (simp add: Grout_init.simps)
next
  assume "gw \<noteq> 0 \<and> gh \<noteq> 0 \<and> tw \<noteq> 0 \<and> th \<noteq> 0"
  then show "\<exists>g. Grout_init (gw, gh) (tw, th) (Some (x0, x1, y0, y1)) (Some t) = Inr g
           \<and> xres g = (x1 - x0) / real_of_int gw
           \<and> yres g = (y1 - y0) / real_of_int gh
           \<and> Grout.xmin g = x0 \<and> Grout.ymax g = y1"
    by (simp add: init_extent)
qed

text \<open>An extent together with an unrelated transform.\<close>

theorem extent_precedence_witness:
  "Grout_init (1000, 500) (256, 256) (Some (0, 100, 0, 50)) (Some (7, 3, 0, 9, 0, - 2))
     = Grout_init (1000, 500) (256, 256) (Some (0, 100, 0, 50)) None
   \<and> (\<exists>g. Grout_init (1000, 500) (256, 256) (Some (0, 100, 0, 50)) (Some (7, 3, 0, 9, 0, - 2)) = Inr g
           \<and> xres g = 1 / 10 \<and> yres g = 1 / 10 \<and> Grout.xmin g = 0 \<and> Grout.ymax g = 50)"
  using extent_precedence [of 1000 500 256 256 0 100 0 50 "(7, 3, 0, 9, 0, - 2)"]
  by simp metis

section \<open>Tile lookup\<close>





text \<open>
  Claim C4. For every linear index in \<open>[0, tile_cols * tile_rows)\<close>, \<open>__getitem__\<close> with the
  index equals \<open>__getitem__\<close> with the tuple \<open>(index % tile_cols, index // tile_cols)\<close>; the
  tile returned has \<open>row = index // tile_cols\<close> and \<open>col = index % tile_cols\<close>.
\<close>

theorem index_equivalence:
  assumes "0 \<le> i" and "i < tile_cols g * tile_rows g"
  shows "getitem g (Lin i) = getitem g (Tup (i mod tile_cols g) (i div tile_cols g))
       \<and> (0 < tile_cols g \<longrightarrow>
            (\<exists>t. getitem g (Lin i) = Inr t \<and> col t = i mod tile_cols g \<and> row t = i div tile_cols g))"
proof -
  from assms have nz: "tile_cols g \<noteq> 0" by auto
  have e: "getitem g (Lin i) = getitem g (Tup (i mod tile_cols g) (i div tile_cols g))"
    by (rule getitem_Lin [OF nz])
  moreover have "\<exists>t. getitem g (Lin i) = Inr t \<and> col t = i mod tile_cols g \<and> row t = i div tile_cols g"
    if "0 < tile_cols g"
  proof -
    have "0 \<le> i mod tile_cols g \<and> i mod tile_cols g < tile_cols g
          \<and> 0 \<le> i div tile_cols g \<and> i div tile_cols g < tile_rows g"
      using linear_in_range [OF that, of i "tile_rows g"] assms by simp
    then show ?thesis unfolding e by (simp add: getitem_Tup)
  qed
  ultimately show ?thesis by blast
qed

text \<open>Linear index 5 of a grid of 4 by 2 tiles is the tile in column 1 of row 1.\<close>

theorem index_equivalence_witness:
  "(0::int) \<le> 5
   \<and> 5 < tile_cols \<lparr>Grout.ncol = 1000, Grout.nrow = 500, block_width = 256, block_height = 256,
          xres = 1 / 10, yres = 1 / 10, Grout.xmin = 0, Grout.ymax = 50,
          tile_cols = 4, tile_rows = 2\<rparr>
        * tile_rows \<lparr>Grout.ncol = 1000, Grout.nrow = 500, block_width = 256, block_height = 256,
          xres = 1 / 10, yres = 1 / 10, Grout.xmin = 0, Grout.ymax = 50,
          tile_cols = 4, tile_rows = 2\<rparr>
   \<and> getitem \<lparr>Grout.ncol = 1000, Grout.nrow = 500, block_width = 256, block_height = 256,
          xres = 1 / 10, yres = 1 / 10, Grout.xmin = 0, Grout.ymax = 50,
          tile_cols = 4, tile_rows = 2\<rparr> (Lin 5)
     = getitem \<lparr>Grout.ncol = 1000, Grout.nrow = 500, block_width = 256, block_height = 256,
          xres = 1 / 10, yres = 1 / 10, Grout.xmin = 0, Grout.ymax = 50,
          tile_cols = 4, tile_rows = 2\<rparr> (Tup 1 1)
   \<and> (\<exists>t. getitem \<lparr>Grout.ncol = 1000, Grout.nrow = 500, block_width = 256, block_height = 256,
          xres = 1 / 10, yres = 1 / 10, Grout.xmin = 0, Grout.ymax = 50,
          tile_cols = 4, tile_rows = 2\<rparr> (Lin 5) = Inr t \<and> col t = 1 \<and> row t = 1)"
  using index_equivalence [of 5 "\<lparr>Grout.ncol = 1000, Grout.nrow = 500, block_width = 256,
          block_height = 256, xres = 1 / 10, yres = 1 / 10, Grout.xmin = 0, Grout.ymax = 50,
          tile_cols = 4, tile_rows = 2\<rparr>"]
  by simp metis

section \<open>Iteration\<close>



section \<open>Coverage\<close>



section \<open>Index partition\<close>



section \<open>Index partition: the divisor\<close>




end
